theory Spec2Isabelle
  imports Main "HOL-Library.Word"
begin

section \<open>The buffered line reader of plink2_getline.h\<close>

subsection \<open>Result codes\<close>

text \<open>
  Modelled from the spec: plink2_base.h, which declares the enum \<open>PglErr\<close>, is missing.
  The header names \<open>kPglRetSuccess\<close>, \<open>kPglRetEof\<close> and \<open>kPglRetReadFail\<close>; its
  comments name nomem, open-fail and long-line errors; section 7 of the specification
  adds the format or decode error (\<open>kPglRetDecompressFail\<close>). \<open>kPglRetSuccess\<close> is
  the zero of the enum: the header tests a code with \<^verbatim>\<open>if (reterr)\<close> and returns
  \<open>kPglRetSuccess\<close> on the other path, so \<^verbatim>\<open>if (reterr)\<close> is
  \<open>reterr \<noteq> kPglRetSuccess\<close> below.
\<close>

datatype PglErr =
    kPglRetSuccess
  | kPglRetNomem
  | kPglRetOpenFail
  | kPglRetReadFail
  | kPglRetDecompressFail
  | kPglRetLongLine
  | kPglRetEof

text \<open>
  Modelled from the spec: \<open>FileCompressionType\<close> is declared in plink2_zstfile.h, which
  is missing; section 4.1 lists the four classes.
\<close>

datatype FileCompressionType = kFileUncompressed | kFileGzip | kFileBgzf | kFileZstd

subsection \<open>The reader's state\<close>

text \<open>
  \<^verbatim>\<open>struct textRFILEStruct\<close>. The three \<^verbatim>\<open>char*\<close> fields point into one buffer:
  \<open>dst\<close> holds the bytes of that buffer, and \<open>consume_iter\<close> and \<open>consume_stop\<close> are
  offsets from its start, so that comparing the pointers is comparing the offsets.
  \<open>ff\<close> is \<open>None\<close> for \<^verbatim>\<open>nullptr\<close>. The input staging area \<^verbatim>\<open>in\<close> and the
  decoder union \<^verbatim>\<open>raw\<close> are read by no function of the header and are left out.
\<close>

type_synonym FILE = nat

record textRFILE =
  consume_iter :: nat
  consume_stop :: nat
  dst :: "char list"
  ff :: "FILE option"
  errmsg :: "string option"
  reterr :: PglErr
  file_type :: FileCompressionType
  dst_owned_by_caller :: "32 word"
  dst_len :: "32 word"
  dst_capacity :: "32 word"
  enforced_max_line_blen :: "32 word"

subsection \<open>Accessors\<close>

definition TextRfileLineEnd :: "textRFILE \<Rightarrow> nat" where
  "TextRfileLineEnd trfp = consume_iter trfp"

definition TextRfileIsOpen :: "textRFILE \<Rightarrow> 32 word" where
  "TextRfileIsOpen trfp = (if ff trfp \<noteq> None then 1 else 0)"

definition TextRfileEof :: "textRFILE \<Rightarrow> 32 word" where
  "TextRfileEof trfp = (if reterr trfp = kPglRetEof then 1 else 0)"

definition TextRfileError :: "textRFILE \<Rightarrow> string option" where
  "TextRfileError trfp = errmsg trfp"

definition TextRfileErrcode :: "textRFILE \<Rightarrow> PglErr" where
  "TextRfileErrcode trfp =
     (if reterr trfp = kPglRetEof then kPglRetSuccess else reterr trfp)"

subsection \<open>Reading a line\<close>

text \<open>
  Modelled from the spec: \<open>AdvPastDelim\<close> is declared in plink2_string.h, which is
  missing. Section 4.2 says of its one use that the reader "returns the line from the
  current cursor position to the next newline and moves the cursor past it": the result
  is the position just after the first \<open>delim\<close> at or after \<open>str_iter\<close>. The C scan
  has no end pointer; when no \<open>delim\<close> follows inside the buffer it runs off the
  buffer, which is the value \<open>None\<close>.
\<close>

definition AdvPastDelim :: "char list \<Rightarrow> nat \<Rightarrow> char \<Rightarrow> nat option" where
  "AdvPastDelim buf str_iter delim =
     (let n = length (takeWhile (\<lambda>c. c \<noteq> delim) (drop str_iter buf))
      in if str_iter + n < length buf then Some (str_iter + n + 1) else None)"

text \<open>
  \<open>TextRfileNextLine\<close>, inline in the header. \<open>TextRfileAdvance\<close> is only declared
  there, so the refill is a parameter: it takes the reader and returns the code and the
  reader it leaves. The third component of the result is the caller's \<^verbatim>\<open>*line_startp\<close>,
  passed in so that a path which does not write it returns it as it was.
\<close>

definition TextRfileNextLine ::
  "(textRFILE \<Rightarrow> PglErr \<times> textRFILE) \<Rightarrow> textRFILE \<Rightarrow> nat \<Rightarrow> (PglErr \<times> textRFILE \<times> nat) option" where
  "TextRfileNextLine TextRfileAdvance trfp line_startp =
     (let (reterr, trfp1) =
        (if consume_iter trfp = consume_stop trfp then TextRfileAdvance trfp
         else (kPglRetSuccess, trfp))
      in if reterr \<noteq> kPglRetSuccess then Some (reterr, trfp1, line_startp)
         else (case AdvPastDelim (dst trfp1) (consume_iter trfp1) (CHR 0x0A) of
                 None \<Rightarrow> None
               | Some p \<Rightarrow> Some (kPglRetSuccess, trfp1\<lparr>consume_iter := p\<rparr>, consume_iter trfp1)))"

text \<open>
  The comment on \<open>consume_stop\<close> in the struct: it "should always point after the last
  \<^verbatim>\<open>\n\<close> in buf". With the cursor between the buffer start and \<open>consume_stop\<close>, this
  is the state in which the header's functions are meant to be called.
\<close>

definition cursor_ok :: "textRFILE \<Rightarrow> bool" where
  "cursor_ok trfp =
     (consume_iter trfp \<le> consume_stop trfp \<and> consume_stop trfp \<le> length (dst trfp) \<and>
      (consume_stop trfp = 0 \<or> dst trfp ! (consume_stop trfp - 1) = CHR 0x0A))"

text \<open>
  Modelled from the spec: \<open>TextRfileAdvance\<close> is declared in the header and its body is
  missing. Section 4.2: "EndOfStream sticks: once observed, subsequent NextLine calls keep
  returning it without re-reading"; section 3: "once status becomes a failure or
  end-of-stream, no further bytes are produced; re-use requires an explicit reset". So a
  reader whose stored code is not success gets that code back and is left as it is. The
  refill algorithm that runs on a reader whose code is success stays a parameter.
\<close>

definition TextRfileAdvance ::
  "(textRFILE \<Rightarrow> PglErr \<times> textRFILE) \<Rightarrow> textRFILE \<Rightarrow> PglErr \<times> textRFILE" where
  "TextRfileAdvance refill trfp =
     (if reterr trfp \<noteq> kPglRetSuccess then (reterr trfp, trfp) else refill trfp)"



subsection \<open>Closing\<close>

text \<open>
  Modelled from the spec: \<open>CleanupTextRfile\<close> is declared in the header and its body is
  missing. What it returns is fixed by the comment on the declaration: "Ok to pass
  reterrp == nullptr. Returns nonzero iff file-close fails, and either reterrp == nullptr
  or *reterrp == kPglRetSuccess. In the latter case, *reterrp is set to kPglRetReadFail."
  \<open>close_fails\<close> is the outcome of closing the underlying file; \<open>reterrp\<close> is \<open>None\<close>
  for \<^verbatim>\<open>nullptr\<close> and otherwise holds the caller's pending code. The result is the
  \<open>BoolErr\<close> and the caller's code afterwards.
\<close>

definition CleanupTextRfile :: "bool \<Rightarrow> PglErr option \<Rightarrow> bool \<times> PglErr option" where
  "CleanupTextRfile close_fails reterrp =
     (if close_fails \<and> (reterrp = None \<or> reterrp = Some kPglRetSuccess)
      then (True, if reterrp = Some kPglRetSuccess then Some kPglRetReadFail else reterrp)
      else (False, reterrp))"

section \<open>The thread group of plink2_thread.h\<close>

subsection \<open>Constants and state\<close>

datatype platform = Win32 | Posix

text \<open>\<open>kMaxThreads\<close>: 64 under \<^verbatim>\<open>_WIN32\<close>, 512 otherwise.\<close>

definition kMaxThreads :: "platform \<Rightarrow> 32 word" where
  "kMaxThreads pf = (case pf of Win32 \<Rightarrow> 64 | Posix \<Rightarrow> 512)"

text \<open>
  The control block in its \<^verbatim>\<open>_WIN32\<close> form, the one whose barrier function is inline
  in the header. An event handle is a number; the two arrays hold one handle per worker.
\<close>

type_synonym HANDLE = nat

record ThreadGroupControlBlock =
  spawn_ct :: nat
  start_next_events :: "HANDLE list"
  cur_block_done_events :: "HANDLE list"
  thread_ct :: "32 word"
  is_last_block :: "32 word"

record ThreadGroupShared =
  shared_context :: nat
  cb :: ThreadGroupControlBlock

text \<open>
  \<open>sharedp\<close> is a pointer to the group's shared block; the record holds the block the
  worker sees through it when it enters the barrier function. In the group, \<open>threads\<close>
  is the array of thread handles, \<open>thread_args\<close> the array of the workers' arguments
  (each points to the same shared block, so only its \<open>tidx\<close> is kept), and
  \<open>thread_func_ptr\<close> the entry function, \<open>None\<close> before one is set.
\<close>

record ThreadGroupFuncArg =
  sharedp :: ThreadGroupShared
  tidx :: "32 word"

record ThreadGroup =
  shared :: ThreadGroupShared
  thread_func_ptr :: "nat option"
  threads :: "HANDLE list"
  thread_args :: "32 word list"
  is_unjoined :: "16 word"
  is_active :: "16 word"

subsection \<open>Inline functions of the owner\<close>

definition GetThreadCt :: "ThreadGroup \<Rightarrow> 32 word" where
  "GetThreadCt tgp = thread_ct (cb (shared tgp))"

text \<open>A failed \<^verbatim>\<open>assert\<close> aborts the program: the value \<open>None\<close>.\<close>

definition SetThreadFuncAndData :: "nat \<Rightarrow> nat \<Rightarrow> ThreadGroup \<Rightarrow> ThreadGroup option" where
  "SetThreadFuncAndData start_routine ctx tgp =
     (if is_active tgp \<noteq> 0 then None
      else Some (tgp\<lparr>shared := (shared tgp)\<lparr>shared_context := ctx,
                                             cb := (cb (shared tgp))\<lparr>is_last_block := 0\<rparr>\<rparr>,
                     thread_func_ptr := Some start_routine\<rparr>))"

definition ReinitThreads :: "ThreadGroup \<Rightarrow> ThreadGroup option" where
  "ReinitThreads tgp =
     (if is_active tgp \<noteq> 0 then None
      else Some (tgp\<lparr>shared := (shared tgp)\<lparr>cb := (cb (shared tgp))\<lparr>is_last_block := 0\<rparr>\<rparr>\<rparr>))"

definition DeclareLastThreadBlock :: "ThreadGroup \<Rightarrow> ThreadGroup option" where
  "DeclareLastThreadBlock tgp =
     (if is_unjoined tgp \<noteq> 0 then None
      else Some (tgp\<lparr>shared := (shared tgp)\<lparr>cb := (cb (shared tgp))\<lparr>is_last_block := 1\<rparr>\<rparr>\<rparr>))"

subsection \<open>The block barrier of a worker\<close>

text \<open>
  \<open>THREAD_BLOCK_FINISH\<close>, inline under \<^verbatim>\<open>_WIN32\<close>. The calls it makes to the
  operating system are returned in order. While the worker waits the owner runs:
  \<open>owner\<close> maps the control block the worker entered with to the one it finds when
  \<open>WaitForSingleObject\<close> returns. Indexing an event array at or beyond its length is
  outside what C defines: the value \<open>None\<close>.
\<close>

datatype sync_call = SetEvent HANDLE | WaitForSingleObject HANDLE

definition THREAD_BLOCK_FINISH ::
  "(ThreadGroupControlBlock \<Rightarrow> ThreadGroupControlBlock) \<Rightarrow> ThreadGroupFuncArg \<Rightarrow> (bool \<times> sync_call list) option" where
  "THREAD_BLOCK_FINISH owner tgfap =
     (let cbp = cb (sharedp tgfap)
      in if is_last_block cbp \<noteq> 0 then Some (True, [])
         else let t = unat (tidx tgfap)
              in if t < length (cur_block_done_events cbp) \<and> t < length (start_next_events cbp)
                 then Some (is_last_block (owner cbp) = 2,
                            [SetEvent (cur_block_done_events cbp ! t),
                             WaitForSingleObject (start_next_events cbp ! t)])
                 else None)"

subsection \<open>Sizing the group\<close>

text \<open>
  Modelled from the spec: \<open>SetThreadCt\<close> is declared in the header ("Also allocates,
  returning 1 on failure") and its body is missing. Section 4.4: it "clamps n to
  [1, platformMax], allocates per-worker resources; fails with NoMemory on allocation
  failure; must not be called while the pool is active". \<open>malloc_ok k\<close> says whether
  the allocation for \<open>k\<close> workers succeeds. A call on an active group is outside the
  contract, like the failed assertions of the inline functions: the value \<open>None\<close>.
  Otherwise the result is the \<open>BoolErr\<close> and the group; a failed call leaves the
  group as it was.
\<close>

definition SetThreadCt ::
  "platform \<Rightarrow> (nat \<Rightarrow> bool) \<Rightarrow> 32 word \<Rightarrow> ThreadGroup \<Rightarrow> (bool \<times> ThreadGroup) option" where
  "SetThreadCt pf malloc_ok n tgp =
     (if is_active tgp \<noteq> 0 then None
      else let k = (if n < 1 then 1 else if kMaxThreads pf < n then kMaxThreads pf else n)
           in if \<not> malloc_ok (unat k) then Some (True, tgp)
              else Some (False,
                    tgp\<lparr>shared := (shared tgp)\<lparr>cb := (cb (shared tgp))
                            \<lparr>start_next_events := replicate (unat k) 0,
                             cur_block_done_events := replicate (unat k) 0,
                             thread_ct := k\<rparr>\<rparr>,
                        threads := replicate (unat k) 0,
                        thread_args := map word_of_nat [0 ..< unat k]\<rparr>))"

section \<open>Concrete states\<close>

text \<open>
  A reader over the buffer \<^verbatim>\<open>ab\nc\<close> with two complete bytes of text and a newline
  before \<open>consume_stop\<close>, the cursor at \<open>i\<close> and the stored code \<open>e\<close>.
\<close>

definition example_reader :: "nat \<Rightarrow> PglErr \<Rightarrow> textRFILE" where
  "example_reader i e =
     \<lparr>consume_iter = i, consume_stop = 3, dst = [CHR ''a'', CHR ''b'', CHR 0x0A, CHR ''c''],
      ff = Some 3, errmsg = None, reterr = e, file_type = kFileUncompressed,
      dst_owned_by_caller = 0, dst_len = 4, dst_capacity = 2097152,
      enforced_max_line_blen = 1048576\<rparr>"

text \<open>A refill that finds the source at its end.\<close>

definition advance_eof :: "textRFILE \<Rightarrow> PglErr \<times> textRFILE" where
  "advance_eof trfp = (kPglRetEof, trfp\<lparr>reterr := kPglRetEof\<rparr>)"



text \<open>A spawned group of two workers, with \<open>is_last_block\<close> at \<open>lb\<close>.\<close>

definition example_group :: "32 word \<Rightarrow> ThreadGroup" where
  "example_group lb =
     \<lparr>shared = \<lparr>shared_context = 0,
                cb = \<lparr>spawn_ct = 1, start_next_events = [10, 11],
                      cur_block_done_events = [20, 21], thread_ct = 2, is_last_block = lb\<rparr>\<rparr>,
      thread_func_ptr = Some 1, threads = [30, 31], thread_args = [0, 1],
      is_unjoined = 0, is_active = 1\<rparr>"

text \<open>The argument of worker \<open>t\<close> of that group.\<close>

definition example_arg :: "32 word \<Rightarrow> 32 word \<Rightarrow> ThreadGroupFuncArg" where
  "example_arg lb t = \<lparr>sharedp = shared (example_group lb), tidx = t\<rparr>"

text \<open>A group before it is sized: every field zero.\<close>

definition preinit_group :: ThreadGroup where
  "preinit_group =
     \<lparr>shared = \<lparr>shared_context = 0,
                cb = \<lparr>spawn_ct = 0, start_next_events = [], cur_block_done_events = [],
                      thread_ct = 0, is_last_block = 0\<rparr>\<rparr>,
      thread_func_ptr = None, threads = [], thread_args = [],
      is_unjoined = 0, is_active = 0\<rparr>"

section \<open>Properties of the line reader\<close>

subsection \<open>Scanning to the next newline\<close>

lemma takeWhile_stops_by:
  "k < length xs \<Longrightarrow> xs ! k = d \<Longrightarrow> length (takeWhile (\<lambda>c. c \<noteq> d) xs) \<le> k"
proof (induction xs arbitrary: k)
  case Nil
  then show ?case by simp
next
  case (Cons x xs)
  then show ?case by (cases k) auto
qed

lemma AdvPastDelim_finds:
  assumes "i < e" and "e \<le> length buf" and "buf ! (e - 1) = d"
  shows "\<exists>p. AdvPastDelim buf i d = Some p \<and> i < p \<and> p \<le> e \<and> buf ! (p - 1) = d \<and>
             d \<notin> set (take (p - 1 - i) (drop i buf))"
proof -
  let ?xs = "drop i buf"
  let ?n = "length (takeWhile (\<lambda>c. c \<noteq> d) ?xs)"
  have k: "e - 1 - i < length ?xs" using assms by simp
  have "?xs ! (e - 1 - i) = d" using assms by simp
  with k have n_le: "?n \<le> e - 1 - i" by (rule takeWhile_stops_by)
  then have lt: "i + ?n < length buf" using assms by linarith
  then have "?n < length ?xs" by simp
  then have "\<not> (?xs ! ?n \<noteq> d)" by (rule nth_length_takeWhile)
  then have hit: "buf ! (i + ?n) = d" using lt by simp
  have "take ?n ?xs = takeWhile (\<lambda>c. c \<noteq> d) ?xs"
    by (rule takeWhile_eq_take [symmetric])
  then have clean: "d \<notin> set (take ?n ?xs)"
    by (auto dest: set_takeWhileD)
  have "AdvPastDelim buf i d = Some (i + ?n + 1)"
    using lt by (simp add: AdvPastDelim_def Let_def)
  moreover have "i + ?n + 1 \<le> e" using n_le assms by linarith
  ultimately show ?thesis using hit clean by simp
qed

lemma NextLine_buffered:
  assumes ok: "cursor_ok trfp" and ne: "consume_iter trfp \<noteq> consume_stop trfp"
  shows "\<exists>p. TextRfileNextLine adv trfp ls =
               Some (kPglRetSuccess, trfp\<lparr>consume_iter := p\<rparr>, consume_iter trfp) \<and>
             consume_iter trfp < p \<and> p \<le> consume_stop trfp \<and>
             dst trfp ! (p - 1) = CHR 0x0A \<and>
             CHR 0x0A \<notin> set (take (p - 1 - consume_iter trfp) (drop (consume_iter trfp) (dst trfp))) \<and>
             TextRfileLineEnd (trfp\<lparr>consume_iter := p\<rparr>) = p \<and>
             cursor_ok (trfp\<lparr>consume_iter := p\<rparr>)"
proof -
  from ok ne have lt: "consume_iter trfp < consume_stop trfp"
    and le: "consume_stop trfp \<le> length (dst trfp)"
    and nl: "dst trfp ! (consume_stop trfp - 1) = CHR 0x0A"
    by (auto simp: cursor_ok_def)
  from AdvPastDelim_finds [OF lt le nl] obtain p where
    p: "AdvPastDelim (dst trfp) (consume_iter trfp) (CHR 0x0A) = Some p"
    and b: "consume_iter trfp < p" "p \<le> consume_stop trfp" "dst trfp ! (p - 1) = CHR 0x0A"
      "CHR 0x0A \<notin> set (take (p - 1 - consume_iter trfp) (drop (consume_iter trfp) (dst trfp)))"
    by blast
  have "TextRfileNextLine adv trfp ls =
          Some (kPglRetSuccess, trfp\<lparr>consume_iter := p\<rparr>, consume_iter trfp)"
    using ne p by (simp add: TextRfileNextLine_def)
  moreover have "cursor_ok (trfp\<lparr>consume_iter := p\<rparr>)"
    using ok b by (simp add: cursor_ok_def)
  ultimately show ?thesis using b
    by (intro exI [of _ p]) (simp add: TextRfileLineEnd_def)
qed

lemma NextLine_advance_fails:
  assumes "consume_iter trfp = consume_stop trfp" and "fst (adv trfp) \<noteq> kPglRetSuccess"
  shows "TextRfileNextLine adv trfp ls = Some (fst (adv trfp), snd (adv trfp), ls)"
  using assms by (cases "adv trfp") (simp add: TextRfileNextLine_def)

text \<open>
  C1. For every open reader in the state the struct's comments describe, whose cursor is
  not at \<open>consume_stop\<close>: \<open>TextRfileNextLine\<close> succeeds whatever the refill would do,
  stores the old cursor in \<^verbatim>\<open>*line_startp\<close>, and moves the cursor to \<open>p\<close>, just past
  the first newline at or after the old cursor (the byte before \<open>p\<close> is a newline, no
  byte between the old cursor and it is one), which is where \<open>TextRfileLineEnd\<close> then
  points; \<open>p\<close> does not pass \<open>consume_stop\<close>. And whenever the cursor is at
  \<open>consume_stop\<close> the result is that of the refill: if the refill returns a code other
  than success, \<open>TextRfileNextLine\<close> returns that code, leaves the reader exactly as the
  refill left it (the cursor is not moved past any line) and does not write
  \<^verbatim>\<open>*line_startp\<close>.
\<close>

theorem TextRfileNextLine_line:
  "(TextRfileIsOpen trfp \<noteq> 0 \<and> cursor_ok trfp \<and> consume_iter trfp \<noteq> consume_stop trfp \<longrightarrow>
      (\<exists>p. TextRfileNextLine adv trfp ls =
               Some (kPglRetSuccess, trfp\<lparr>consume_iter := p\<rparr>, consume_iter trfp) \<and>
             consume_iter trfp < p \<and> p \<le> consume_stop trfp \<and>
             dst trfp ! (p - 1) = CHR 0x0A \<and>
             CHR 0x0A \<notin> set (take (p - 1 - consume_iter trfp) (drop (consume_iter trfp) (dst trfp))) \<and>
             TextRfileLineEnd (trfp\<lparr>consume_iter := p\<rparr>) = p \<and>
             cursor_ok (trfp\<lparr>consume_iter := p\<rparr>)))
   \<and> (consume_iter trfp = consume_stop trfp \<and> fst (adv trfp) \<noteq> kPglRetSuccess \<longrightarrow>
        TextRfileNextLine adv trfp ls = Some (fst (adv trfp), snd (adv trfp), ls))"
  using NextLine_buffered [of trfp adv ls] NextLine_advance_fails [of trfp adv ls]
  by blast

text \<open>
  Witness for C1: on the buffer \<^verbatim>\<open>ab\nc\<close> with the cursor at 0 the call returns the
  line starting at 0 and moves the cursor to 3; with the cursor at \<open>consume_stop\<close> and a
  source at its end the call returns the end-of-stream code of the refill.
\<close>

theorem TextRfileNextLine_line_witness:
  "TextRfileIsOpen (example_reader 0 kPglRetSuccess) \<noteq> 0 \<and>
   cursor_ok (example_reader 0 kPglRetSuccess) \<and>
   consume_iter (example_reader 0 kPglRetSuccess) \<noteq> consume_stop (example_reader 0 kPglRetSuccess) \<and>
   TextRfileNextLine advance_eof (example_reader 0 kPglRetSuccess) 7 =
     Some (kPglRetSuccess, example_reader 3 kPglRetSuccess, 0) \<and>
   consume_iter (example_reader 3 kPglRetSuccess) = consume_stop (example_reader 3 kPglRetSuccess) \<and>
   fst (advance_eof (example_reader 3 kPglRetSuccess)) \<noteq> kPglRetSuccess \<and>
   TextRfileNextLine advance_eof (example_reader 3 kPglRetSuccess) 7 =
     Some (kPglRetEof, example_reader 3 kPglRetEof, 7)"
  using TextRfileNextLine_line [of "example_reader 0 kPglRetSuccess" advance_eof 7]
    TextRfileNextLine_line [of "example_reader 3 kPglRetSuccess" advance_eof 7]
  by (simp add: example_reader_def advance_eof_def TextRfileIsOpen_def cursor_ok_def
      TextRfileNextLine_def AdvPastDelim_def)

subsection \<open>Terminal codes\<close>









text \<open>
  C9. End of stream is not a failure for the error-code accessor: for every reader
  state \<open>TextRfileErrcode\<close> returns the stored code, except that a stored
  \<open>kPglRetEof\<close> is reported as \<open>kPglRetSuccess\<close>; and \<open>TextRfileEof\<close> is nonzero
  exactly when the stored code is \<open>kPglRetEof\<close>.
\<close>

theorem TextRfileErrcode_Eof:
  "TextRfileErrcode trfp = (if reterr trfp = kPglRetEof then kPglRetSuccess else reterr trfp)
   \<and> (reterr trfp = kPglRetEof) = (TextRfileErrcode trfp = kPglRetSuccess \<and> reterr trfp \<noteq> kPglRetSuccess)
   \<and> (TextRfileEof trfp \<noteq> 0) = (reterr trfp = kPglRetEof)"
  by (simp add: TextRfileErrcode_def TextRfileEof_def)

subsection \<open>Closing\<close>

text \<open>
  C3, as amended. \<open>CleanupTextRfile\<close> never replaces a pending error: when the caller's
  code is already an error it is left as it is and the function returns zero, whether or
  not the close fails, so the close failure is not reported beside it. A close failure is
  reported by a nonzero return only when the caller passed no code or a code of success;
  in the second case that code becomes \<open>kPglRetReadFail\<close>.
\<close>

theorem CleanupTextRfile_contract:
  "(e \<noteq> kPglRetSuccess \<longrightarrow> CleanupTextRfile close_fails (Some e) = (False, Some e)) \<and>
   CleanupTextRfile close_fails None = (close_fails, None) \<and>
   CleanupTextRfile close_fails (Some kPglRetSuccess) =
     (close_fails, Some (if close_fails then kPglRetReadFail else kPglRetSuccess))"
  by (simp add: CleanupTextRfile_def)

text \<open>Witness for C3: a pending long-line error and a close that fails.\<close>

theorem CleanupTextRfile_contract_witness:
  "kPglRetLongLine \<noteq> kPglRetSuccess \<and>
   CleanupTextRfile True (Some kPglRetLongLine) = (False, Some kPglRetLongLine) \<and>
   CleanupTextRfile True None = (True, None) \<and>
   CleanupTextRfile True (Some kPglRetSuccess) = (True, Some kPglRetReadFail)"
  using CleanupTextRfile_contract [of kPglRetLongLine True] by simp

text \<open>
  Counterexample to C3 as stated ("the close-failure is additionally reported"): with an
  out-of-memory error pending and a close that fails, the return value is zero and the
  caller's code is unchanged, so nothing tells the caller that the close failed.
\<close>

theorem CleanupTextRfile_close_failure_unreported:
  "CleanupTextRfile True (Some kPglRetNomem) = (False, Some kPglRetNomem)"
  by (simp add: CleanupTextRfile_def)

section \<open>Properties of the thread group\<close>

text \<open>
  C5, as amended. For every worker that enters the barrier function while
  \<open>is_last_block\<close> is still zero: the function signals the worker's block-done event,
  then waits on the worker's start-next event, and returns true exactly when
  \<open>is_last_block\<close> is 2 once the wait is over; with the value 1 (the declared last
  block) it returns false, and the worker goes on to process that block.
\<close>

theorem THREAD_BLOCK_FINISH_handshake:
  assumes "is_last_block (cb (sharedp tgfap)) = 0"
    and "unat (tidx tgfap) < length (cur_block_done_events (cb (sharedp tgfap)))"
    and "unat (tidx tgfap) < length (start_next_events (cb (sharedp tgfap)))"
  shows "THREAD_BLOCK_FINISH owner tgfap =
           Some (is_last_block (owner (cb (sharedp tgfap))) = 2,
                 [SetEvent (cur_block_done_events (cb (sharedp tgfap)) ! unat (tidx tgfap)),
                  WaitForSingleObject (start_next_events (cb (sharedp tgfap)) ! unat (tidx tgfap))])"
  using assms by (simp add: THREAD_BLOCK_FINISH_def Let_def)

text \<open>
  Witness for C5: worker 1 of a group of two; the owner sets \<open>is_last_block\<close> to 2, or
  to 1, while the worker waits.
\<close>

theorem THREAD_BLOCK_FINISH_handshake_witness:
  "is_last_block (cb (sharedp (example_arg 0 1))) = 0 \<and>
   unat (tidx (example_arg 0 1)) < length (cur_block_done_events (cb (sharedp (example_arg 0 1)))) \<and>
   unat (tidx (example_arg 0 1)) < length (start_next_events (cb (sharedp (example_arg 0 1)))) \<and>
   THREAD_BLOCK_FINISH (is_last_block_update (\<lambda>_. 2)) (example_arg 0 1) =
     Some (True, [SetEvent 21, WaitForSingleObject 11]) \<and>
   THREAD_BLOCK_FINISH (is_last_block_update (\<lambda>_. 1)) (example_arg 0 1) =
     Some (False, [SetEvent 21, WaitForSingleObject 11])"
  using THREAD_BLOCK_FINISH_handshake [of "example_arg 0 1" "is_last_block_update (\<lambda>_. 2)"]
    THREAD_BLOCK_FINISH_handshake [of "example_arg 0 1" "is_last_block_update (\<lambda>_. 1)"]
  by (simp add: example_arg_def example_group_def)

text \<open>
  Counterexample to C5 as stated ("signals ..., then waits ..., true exactly when
  is_last_block == 2"): worker 0 enters with \<open>is_last_block\<close> at 1, the graceful value,
  and nobody changes it; the function returns true and has neither signalled nor waited.
\<close>

theorem THREAD_BLOCK_FINISH_graceful_returns_true:
  "is_last_block (cb (sharedp (example_arg 1 0))) = 1 \<and>
   THREAD_BLOCK_FINISH id (example_arg 1 0) = Some (True, [])"
  by (simp add: THREAD_BLOCK_FINISH_def example_arg_def example_group_def)

text \<open>
  C10. When \<open>is_last_block\<close> is nonzero as a worker enters the barrier function, the
  function returns true with no call made: no block-done event is signalled and nothing
  is waited for, whatever the owner does. The values 1 and 2 give the same result on this
  path. In particular this is what every worker gets once \<open>DeclareLastThreadBlock\<close> has
  run on the group.
\<close>

theorem THREAD_BLOCK_FINISH_last_block:
  "(is_last_block (cb (sharedp tgfap)) \<noteq> 0 \<longrightarrow> THREAD_BLOCK_FINISH owner tgfap = Some (True, []))
   \<and> THREAD_BLOCK_FINISH owner
         (tgfap\<lparr>sharedp := (sharedp tgfap)\<lparr>cb := (cb (sharedp tgfap))\<lparr>is_last_block := 1\<rparr>\<rparr>\<rparr>) =
       THREAD_BLOCK_FINISH owner
         (tgfap\<lparr>sharedp := (sharedp tgfap)\<lparr>cb := (cb (sharedp tgfap))\<lparr>is_last_block := 2\<rparr>\<rparr>\<rparr>)
   \<and> (DeclareLastThreadBlock tgp = Some tgp' \<longrightarrow>
         THREAD_BLOCK_FINISH owner \<lparr>sharedp = shared tgp', tidx = t\<rparr> = Some (True, []))"
  by (auto simp: THREAD_BLOCK_FINISH_def DeclareLastThreadBlock_def Let_def split: if_splits)

text \<open>
  Witness for C10: worker 0 entering with the immediate value 2, and worker 1 after
  \<open>DeclareLastThreadBlock\<close> on a group that has not been spawned.
\<close>

theorem THREAD_BLOCK_FINISH_last_block_witness:
  "is_last_block (cb (sharedp (example_arg 2 0))) \<noteq> 0 \<and>
   THREAD_BLOCK_FINISH id (example_arg 2 0) = Some (True, []) \<and>
   DeclareLastThreadBlock preinit_group \<noteq> None \<and>
   THREAD_BLOCK_FINISH id \<lparr>sharedp = shared (the (DeclareLastThreadBlock preinit_group)), tidx = 1\<rparr> =
     Some (True, [])"
  using THREAD_BLOCK_FINISH_last_block [of "example_arg 2 0" id preinit_group
      "the (DeclareLastThreadBlock preinit_group)" 1]
  by (simp add: example_arg_def example_group_def DeclareLastThreadBlock_def preinit_group_def)

subsection \<open>Sizing the group\<close>

lemma word32_ge1: "n \<noteq> 0 \<Longrightarrow> 1 \<le> (n::32 word)"
  by (simp add: word_le_sub1)

lemma kMaxThreads_ge1: "1 \<le> kMaxThreads pf"
  by (cases pf) (simp_all add: kMaxThreads_def)

lemma clamp_max_min:
  "(if n < 1 then 1 else if kMaxThreads pf < n then kMaxThreads pf else n) =
     max 1 (min n (kMaxThreads pf))"
  using kMaxThreads_ge1 [of pf] word32_ge1 [of n]
  by (auto simp: max_def min_def not_less word_less_1)

text \<open>
  C8. For every argument \<open>n\<close>, either platform and every group that is not active,
  \<open>SetThreadCt\<close> returns, and it clamps \<open>n\<close> before it allocates: with
  \<open>k = max 1 (min n kMaxThreads)\<close>, that is 1 for \<open>n = 0\<close>, \<open>kMaxThreads\<close> (64
  under Windows, 512 otherwise) for \<open>n\<close> above it and \<open>n\<close> itself in between, the
  call fails exactly when the allocation for \<open>k\<close> workers fails; when it succeeds the
  group's thread count (what \<open>GetThreadCt\<close> returns) is \<open>k\<close>, which lies between 1
  and \<open>kMaxThreads\<close>, and every per-worker array has \<open>k\<close> entries.
\<close>

theorem SetThreadCt_clamps:
  assumes "is_active tgp = 0"
  shows "\<exists>tgp'. SetThreadCt pf malloc_ok n tgp =
                  Some (\<not> malloc_ok (unat (max 1 (min n (kMaxThreads pf)))), tgp') \<and>
           (malloc_ok (unat (max 1 (min n (kMaxThreads pf)))) \<longrightarrow>
              GetThreadCt tgp' = max 1 (min n (kMaxThreads pf)) \<and>
              length (threads tgp') = unat (GetThreadCt tgp') \<and>
              length (thread_args tgp') = unat (GetThreadCt tgp') \<and>
              length (start_next_events (cb (shared tgp'))) = unat (GetThreadCt tgp') \<and>
              length (cur_block_done_events (cb (shared tgp'))) = unat (GetThreadCt tgp')) \<and>
           1 \<le> max 1 (min n (kMaxThreads pf)) \<and>
           max 1 (min n (kMaxThreads pf)) \<le> kMaxThreads pf \<and>
           kMaxThreads pf = (case pf of Win32 \<Rightarrow> 64 | Posix \<Rightarrow> 512) \<and>
           (n < 1 \<longrightarrow> max 1 (min n (kMaxThreads pf)) = 1) \<and>
           (kMaxThreads pf < n \<longrightarrow> max 1 (min n (kMaxThreads pf)) = kMaxThreads pf) \<and>
           (1 \<le> n \<and> n \<le> kMaxThreads pf \<longrightarrow> max 1 (min n (kMaxThreads pf)) = n)"
proof -
  let ?k = "max 1 (min n (kMaxThreads pf))"
  have eq: "SetThreadCt pf malloc_ok n tgp =
      (if \<not> malloc_ok (unat ?k) then Some (True, tgp)
       else Some (False,
             tgp\<lparr>shared := (shared tgp)\<lparr>cb := (cb (shared tgp))
                     \<lparr>start_next_events := replicate (unat ?k) 0,
                      cur_block_done_events := replicate (unat ?k) 0,
                      thread_ct := ?k\<rparr>\<rparr>,
                 threads := replicate (unat ?k) 0,
                 thread_args := map word_of_nat [0 ..< unat ?k]\<rparr>))"
    using assms unfolding SetThreadCt_def Let_def clamp_max_min by simp
  have range: "1 \<le> ?k \<and> ?k \<le> kMaxThreads pf"
    using kMaxThreads_ge1 [of pf] by (auto simp: max_def min_def)
  have sat: "(n < 1 \<longrightarrow> ?k = 1) \<and> (kMaxThreads pf < n \<longrightarrow> ?k = kMaxThreads pf) \<and>
      (1 \<le> n \<and> n \<le> kMaxThreads pf \<longrightarrow> ?k = n)"
    using kMaxThreads_ge1 [of pf] by (auto simp: max_def min_def word_less_1)
  have vals: "kMaxThreads pf = (case pf of Win32 \<Rightarrow> 64 | Posix \<Rightarrow> 512)"
    by (simp add: kMaxThreads_def)
  show ?thesis
  proof (cases "malloc_ok (unat ?k)")
    case False
    with eq range sat vals show ?thesis by simp
  next
    case True
    with eq range sat vals show ?thesis by (simp add: GetThreadCt_def)
  qed
qed

text \<open>
  Witness for C8, on a group that is not active: 0 is raised to 1, 1000 is lowered to 64
  under Windows and to 512 elsewhere, 8 is kept, and a failed allocation is the failure.
\<close>

theorem SetThreadCt_clamps_witness:
  "is_active preinit_group = 0 \<and>
   map_option fst (SetThreadCt Posix (\<lambda>_. True) 0 preinit_group) = Some False \<and>
   map_option (GetThreadCt \<circ> snd) (SetThreadCt Posix (\<lambda>_. True) 0 preinit_group) = Some 1 \<and>
   map_option (GetThreadCt \<circ> snd) (SetThreadCt Win32 (\<lambda>_. True) 1000 preinit_group) = Some 64 \<and>
   map_option (GetThreadCt \<circ> snd) (SetThreadCt Posix (\<lambda>_. True) 1000 preinit_group) = Some 512 \<and>
   map_option (GetThreadCt \<circ> snd) (SetThreadCt Posix (\<lambda>_. True) 8 preinit_group) = Some 8 \<and>
   map_option fst (SetThreadCt Posix (\<lambda>_. False) 8 preinit_group) = Some True"
  using SetThreadCt_clamps [where tgp = preinit_group and pf = Posix and n = 0
      and malloc_ok = "\<lambda>_. True"]
    SetThreadCt_clamps [where tgp = preinit_group and pf = Win32 and n = 1000
      and malloc_ok = "\<lambda>_. True"]
  by (simp add: SetThreadCt_def GetThreadCt_def kMaxThreads_def preinit_group_def)

end
